theory Spec2Isabelle
  imports Complex_Main "HOL-Library.AList"
begin

section \<open>Basis-trading bot (modules/BinanceArb.py): data model\<close>

text \<open>
  Python floats are modelled as reals (no rounding error, no NaN or infinity); Python
  integers as \<open>int\<close>. A keyword dictionary is an association list in insertion order.
  The exchange handle \<open>self.exchange\<close> and the \<open>time\<close> module are the environment: a record
  of operations over an abstract world \<open>'w\<close>, each returning its result (or the exception
  it raises) together with the next world.
\<close>

datatype pyval = PyStr string | PyFloat real | PyInt int

type_synonym pydict = "(string \<times> pyval) list"

datatype exn = ValueError | TypeError | KeyError | IndexError | ZeroDivisionError | GatewayError

text \<open>
  \<open>Exception e\<close> is an instance of Python's \<open>Exception\<close>; \<open>SystemExit\<close> is what \<open>exit()\<close>
  raises. It derives from \<open>BaseException\<close> only, so \<open>except Exception\<close> does not catch it.
\<close>

datatype error = Exception exn | SystemExit

record ticker =
  askPrice :: real
  bidPrice :: real

record 'w exchange =
  create_limit_buy_order :: "pyval \<Rightarrow> pyval \<Rightarrow> pyval \<Rightarrow> 'w \<Rightarrow> (error + pydict) \<times> 'w"
  create_limit_sell_order :: "pyval \<Rightarrow> pyval \<Rightarrow> pyval \<Rightarrow> 'w \<Rightarrow> (error + pydict) \<times> 'w"
  dapiPrivatePostOrder :: "pydict \<Rightarrow> 'w \<Rightarrow> (error + pydict) \<times> 'w"
  sapiPostAssetTransfer :: "pydict \<Rightarrow> 'w \<Rightarrow> (error + pydict) \<times> 'w"
  fetch_balance :: "'w \<Rightarrow> (error + (string \<times> real) list) \<times> 'w"
  publicGetTickerBookTicker :: "string \<Rightarrow> 'w \<Rightarrow> (error + ticker) \<times> 'w"
  dapiPublicGetTickerBookTicker :: "string \<Rightarrow> 'w \<Rightarrow> (error + ticker list) \<times> 'w"

record 'w clock =
  time_time :: "'w \<Rightarrow> real"
  time_sleep :: "real \<Rightarrow> 'w \<Rightarrow> 'w"

record 'w bot =
  exchange :: "'w exchange"
  clock :: "'w clock"
  coin :: string
  future_date :: string
  coin_precision :: int
  slippage :: real
  spot_fee_rate :: real
  contract_fee_rate :: real
  multipler :: "(string \<times> real) list"
  amount :: real
  num_maximum :: int
  threshold :: real
  max_trial :: int

definition spot_symbol_type1 :: "'w bot \<Rightarrow> string" where
  "spot_symbol_type1 b = coin b @ ''USDT''"

definition spot_symbol_type2 :: "'w bot \<Rightarrow> string" where
  "spot_symbol_type2 b = coin b @ ''/USDT''"

definition future_symbol_type1 :: "'w bot \<Rightarrow> string" where
  "future_symbol_type1 b = coin b @ ''USD_'' @ future_date b"

subsection \<open>Observable actions\<close>

text \<open>
  The trace records what the bot itself does, in order: its direct reads of the exchange,
  each invocation \<open>func(**params)\<close> made by \<open>retry_wrapper\<close> (with the action label and the
  parameters of that attempt), each \<open>time.sleep\<close>, each \<open>send_dd_msg\<close> alert, and the log
  lines that mark a control decision. The other log lines carry no control flow and are
  left out.
\<close>

datatype event =
    Ticker_spot string
  | Ticker_future string
  | Fetch_balance
  | Attempt string pydict
  | Sleep real
  | Alert string pydict
  | Log string

record 'w st =
  world :: 'w
  trace :: "event list"

type_synonym ('w, 'a) comp = "'w st \<Rightarrow> (error + 'a) \<times> 'w st"

definition returnE :: "'a \<Rightarrow> ('w, 'a) comp" where
  "returnE a = (\<lambda>s. (Inr a, s))"

definition bindE :: "('w, 'a) comp \<Rightarrow> ('a \<Rightarrow> ('w, 'b) comp) \<Rightarrow> ('w, 'b) comp" where
  "bindE m f = (\<lambda>s. case m s of (Inl e, s') \<Rightarrow> (Inl e, s') | (Inr a, s') \<Rightarrow> f a s')"

definition liftE :: "error + 'a \<Rightarrow> ('w, 'a) comp" where
  "liftE r = (\<lambda>s. (r, s))"

definition emit :: "event \<Rightarrow> 'w st \<Rightarrow> 'w st" where
  "emit ev s = s\<lparr>trace := trace s @ [ev]\<rparr>"

definition gateway :: "event \<Rightarrow> ('w \<Rightarrow> (error + 'a) \<times> 'w) \<Rightarrow> ('w, 'a) comp" where
  "gateway ev g = (\<lambda>s. case g (world s) of (r, w') \<Rightarrow> (r, emit ev (s\<lparr>world := w'\<rparr>)))"

definition sleep :: "'w bot \<Rightarrow> real \<Rightarrow> 'w st \<Rightarrow> 'w st" where
  "sleep b secs s = emit (Sleep secs) (s\<lparr>world := time_sleep (clock b) secs (world s)\<rparr>)"

definition sleepE :: "'w bot \<Rightarrow> real \<Rightarrow> ('w, unit) comp" where
  "sleepE b secs = (\<lambda>s. (Inr (), sleep b secs s))"

definition logE :: "string \<Rightarrow> ('w, unit) comp" where
  "logE msg = (\<lambda>s. (Inr (), emit (Log msg) s))"

subsection \<open>Python primitives\<close>

text \<open>\<open>int(x)\<close> on a float truncates toward zero.\<close>

definition py_int :: "real \<Rightarrow> int" where
  "py_int x = (if 0 \<le> x then \<lfloor>x\<rfloor> else \<lceil>x\<rceil>)"

text \<open>\<open>x / y\<close> on floats raises \<open>ZeroDivisionError\<close> when \<open>y\<close> is zero.\<close>

definition py_div :: "real \<Rightarrow> real \<Rightarrow> error + real" where
  "py_div x y = (if y = 0 then Inl (Exception ZeroDivisionError) else Inr (x / y))"

text \<open>\<open>round(x, n)\<close>: the nearest multiple of \<open>10 ** -n\<close>, ties to the even one.\<close>

definition py_round :: "real \<Rightarrow> int \<Rightarrow> real" where
  "py_round x n =
     (let scale = (if 0 \<le> n then 10 ^ nat n else 1 / 10 ^ nat (- n));
          y = x * scale;
          f = \<lfloor>y\<rfloor>;
          d = y - of_int f;
          k = (if d < 1 / 2 then f else if 1 / 2 < d then f + 1
               else if even f then f else f + 1)
      in of_int k / scale)"

text \<open>\<open>d[k]\<close> raises \<open>KeyError\<close> on a missing key.\<close>

definition getitem :: "(string \<times> 'a) list \<Rightarrow> string \<Rightarrow> error + 'a" where
  "getitem d k = (case map_of d k of None \<Rightarrow> Inl (Exception KeyError) | Some v \<Rightarrow> Inr v)"

text \<open>
  Binding \<open>**params\<close> to a signature: the required names, then the names with a default.
  A missing required name or an unexpected name is a \<open>TypeError\<close> (here \<open>None\<close>).
\<close>

definition kwargs :: "string list \<Rightarrow> (string \<times> pyval) list \<Rightarrow> pydict \<Rightarrow> pyval list option" where
  "kwargs req opt params =
     (if list_all (\<lambda>(k, v). k \<in> set req \<or> k \<in> fst ` set opt) params
      then map_option (\<lambda>vs. vs @ map (\<lambda>(k, d). case map_of params k of None \<Rightarrow> d | Some v \<Rightarrow> v) opt)
             (those (map (map_of params) req))
      else None)"

section \<open>retry\_wrapper\<close>

definition refresh_timestamp :: "'w bot \<Rightarrow> pydict \<Rightarrow> 'w \<Rightarrow> pydict" where
  "refresh_timestamp b params w =
     (if ''timestamp'' \<in> fst ` set params
      then AList.update ''timestamp'' (PyInt (py_int (time_time (clock b) w) * 1000)) params
      else params)"

text \<open>
  The \<open>for\<close> loop over \<open>range(max_trial)\<close>, with the number of iterations left. \<open>None\<close> is
  the loop running to its end (the \<open>else\<close> clause follows); \<open>Some r\<close> is leaving the
  function from inside the loop, by \<open>return\<close> or by an exception that \<open>except Exception\<close>
  does not catch. The dictionary is returned as the loop leaves it.
\<close>

fun retry_attempts ::
  "'w bot \<Rightarrow> (pydict \<Rightarrow> 'w \<Rightarrow> (error + 'r) \<times> 'w) \<Rightarrow> string \<Rightarrow> real \<Rightarrow> nat \<Rightarrow> pydict \<Rightarrow> 'w st
     \<Rightarrow> ((error + 'r) option \<times> pydict) \<times> 'w st" where
  "retry_attempts b func act_name sleep_seconds 0 params s = ((None, params), s)"
| "retry_attempts b func act_name sleep_seconds (Suc n) params s =
     (let params' = refresh_timestamp b params (world s);
          s1 = emit (Attempt act_name params') s
      in case func params' (world s1) of
           (Inr result, w') \<Rightarrow> ((Some (Inr result), params'), s1\<lparr>world := w'\<rparr>)
         | (Inl SystemExit, w') \<Rightarrow> ((Some (Inl SystemExit), params'), s1\<lparr>world := w'\<rparr>)
         | (Inl (Exception e), w') \<Rightarrow>
             retry_attempts b func act_name sleep_seconds n params'
               (sleep b sleep_seconds (s1\<lparr>world := w'\<rparr>)))"

text \<open>
  \<open>retry_wrapper\<close> returns the operation's result (\<open>Some\<close>), or Python's \<open>None\<close> when it
  gave up with \<open>is_exit\<close> false, and the dictionary as it leaves it.
\<close>

definition retry_wrapper_dict ::
  "'w bot \<Rightarrow> (pydict \<Rightarrow> 'w \<Rightarrow> (error + 'r) \<times> 'w) \<Rightarrow> pydict \<Rightarrow> string \<Rightarrow> real \<Rightarrow> bool \<Rightarrow> 'w st
     \<Rightarrow> ((error + 'r option) \<times> pydict) \<times> 'w st" where
  "retry_wrapper_dict b func params act_name sleep_seconds is_exit s =
     (case retry_attempts b func act_name sleep_seconds (nat (max_trial b)) params s of
        ((Some (Inr result), params'), s') \<Rightarrow> ((Inr (Some result), params'), s')
      | ((Some (Inl e), params'), s') \<Rightarrow> ((Inl e, params'), s')
      | ((None, params'), s') \<Rightarrow>
          (let s'' = emit (Alert act_name params')
                       (emit (Log (act_name @ '' FAIL too many times... Arbitrage STOPs!'')) s')
           in if is_exit then ((Inl SystemExit, params'), s'') else ((Inr None, params'), s'')))"

definition retry_wrapper ::
  "'w bot \<Rightarrow> (pydict \<Rightarrow> 'w \<Rightarrow> (error + 'r) \<times> 'w) \<Rightarrow> pydict \<Rightarrow> string \<Rightarrow> real \<Rightarrow> bool
     \<Rightarrow> ('w, 'r option) comp" where
  "retry_wrapper b func params act_name sleep_seconds is_exit s =
     (case retry_wrapper_dict b func params act_name sleep_seconds is_exit s of
        ((r, params'), s') \<Rightarrow> (r, s'))"

section \<open>The three exchange operations\<close>

definition binance_spot_place_order ::
  "'w bot \<Rightarrow> pyval \<Rightarrow> pyval \<Rightarrow> pyval \<Rightarrow> pyval \<Rightarrow> 'w \<Rightarrow> (error + pydict) \<times> 'w" where
  "binance_spot_place_order b symbol direction price amt w =
     (if direction = PyStr ''long'' then create_limit_buy_order (exchange b) symbol amt price w
      else if direction = PyStr ''short'' then create_limit_sell_order (exchange b) symbol amt price w
      else (Inl (Exception ValueError), w))"

text \<open>
  In the last branch the source evaluates \<open>NotImplemented(...)\<close>: the constant
  \<open>NotImplemented\<close> is not callable, so what is raised is a \<open>TypeError\<close>.
\<close>

definition binance_future_place_order ::
  "'w bot \<Rightarrow> pyval \<Rightarrow> pyval \<Rightarrow> pyval \<Rightarrow> pyval \<Rightarrow> 'w \<Rightarrow> (error + pydict) \<times> 'w" where
  "binance_future_place_order b symbol direction price amt w =
     (case (if direction = PyStr ''open_short'' then Some ''SELL''
            else if direction = PyStr ''close_short'' then Some ''BUY''
            else None) of
        None \<Rightarrow> (Inl (Exception TypeError), w)
      | Some side \<Rightarrow>
          dapiPrivatePostOrder (exchange b)
            [(''side'', PyStr side),
             (''positionSide'', PyStr ''SHORT''),
             (''symbol'', symbol),
             (''type'', PyStr ''LIMIT''),
             (''price'', price),
             (''quantity'', amt),
             (''timeInForce'', PyStr ''GTC''),
             (''timestamp'', PyInt (py_int (time_time (clock b) w * 1000)))] w)"

definition binance_account_transfer ::
  "'w bot \<Rightarrow> pyval \<Rightarrow> pyval \<Rightarrow> pyval \<Rightarrow> pyval \<Rightarrow> 'w \<Rightarrow> (error + pydict) \<times> 'w" where
  "binance_account_transfer b currency amt from_account to_account w =
     (case (if from_account = PyStr ''spot'' \<and> to_account = PyStr ''coin-margin''
              then Some ''MAIN_CMFUTURE''
            else if from_account = PyStr ''coin-margin'' \<and> to_account = PyStr ''spot''
              then Some ''CMFUTURE_MAIN''
            else None) of
        None \<Rightarrow> (Inl (Exception ValueError), w)
      | Some transfer_type \<Rightarrow>
          sapiPostAssetTransfer (exchange b)
            [(''type'', PyStr transfer_type),
             (''asset'', currency),
             (''amount'', amt),
             (''timestamp'', PyInt (py_int (time_time (clock b) w * 1000)))] w)"

text \<open>The same three methods called as \<open>func(**params)\<close>.\<close>

definition spot_place_order_kw :: "'w bot \<Rightarrow> pydict \<Rightarrow> 'w \<Rightarrow> (error + pydict) \<times> 'w" where
  "spot_place_order_kw b params w =
     (case kwargs [''symbol'', ''direction'', ''price'', ''amount''] [] params of
        Some [symbol, direction, price, amt] \<Rightarrow> binance_spot_place_order b symbol direction price amt w
      | _ \<Rightarrow> (Inl (Exception TypeError), w))"

definition future_place_order_kw :: "'w bot \<Rightarrow> pydict \<Rightarrow> 'w \<Rightarrow> (error + pydict) \<times> 'w" where
  "future_place_order_kw b params w =
     (case kwargs [''symbol'', ''direction'', ''price'', ''amount''] [] params of
        Some [symbol, direction, price, amt] \<Rightarrow> binance_future_place_order b symbol direction price amt w
      | _ \<Rightarrow> (Inl (Exception TypeError), w))"

definition account_transfer_kw :: "'w bot \<Rightarrow> pydict \<Rightarrow> 'w \<Rightarrow> (error + pydict) \<times> 'w" where
  "account_transfer_kw b params w =
     (case kwargs [''currency'', ''amount'']
             [(''from_account'', PyStr ''spot''), (''to_account'', PyStr ''coin-margin'')] params of
        Some [currency, amt, from_account, to_account] \<Rightarrow>
          binance_account_transfer b currency amt from_account to_account w
      | _ \<Rightarrow> (Inl (Exception TypeError), w))"

section \<open>Order sizes\<close>

record sizing =
  contract_num :: int
  contract_coin_num :: real
  contract_fee :: real
  spot_amount :: real

text \<open>Lines 170 to 173 of \<open>open_position\<close>, with \<open>m = self.multipler[self.coin]\<close>.\<close>

definition open_sizing :: "real \<Rightarrow> real \<Rightarrow> real \<Rightarrow> real \<Rightarrow> real \<Rightarrow> error + sizing" where
  "open_sizing amt m coin_bid1 f_s f_f =
     (case py_div amt m of
        Inl e \<Rightarrow> Inl e
      | Inr q \<Rightarrow>
          (let n = py_int q in
           (case py_div (of_int n * m) coin_bid1 of
              Inl e \<Rightarrow> Inl e
            | Inr c \<Rightarrow>
                (let fee = c * f_f in
                 (case py_div c (1 - f_s) of
                    Inl e \<Rightarrow> Inl e
                  | Inr g \<Rightarrow>
                      Inr \<lparr>contract_num = n, contract_coin_num = c, contract_fee = fee,
                           spot_amount = g + fee\<rparr>)))))"

text \<open>Lines 266 to 269 of \<open>close_position_utils\<close>.\<close>

definition close_sizing :: "real \<Rightarrow> real \<Rightarrow> real \<Rightarrow> real \<Rightarrow> error + sizing" where
  "close_sizing amt m coin_bid1 f_f =
     (case py_div (coin_bid1 * amt) m of
        Inl e \<Rightarrow> Inl e
      | Inr q \<Rightarrow>
          (let n = py_int q in
           (case py_div (of_int n * m) coin_bid1 of
              Inl e \<Rightarrow> Inl e
            | Inr c \<Rightarrow>
                (let fee = c * f_f in
                 Inr \<lparr>contract_num = n, contract_coin_num = c, contract_fee = fee,
                      spot_amount = c - fee\<rparr>))))"


text \<open>\<open>order_info['average']\<close>, where \<open>order_info\<close> is what \<open>retry_wrapper\<close> returned.\<close>

definition average_of :: "pydict option \<Rightarrow> error + pyval" where
  "average_of order_info =
     (case order_info of None \<Rightarrow> Inl (Exception TypeError) | Some d \<Rightarrow> getitem d ''average'')"

section \<open>open\_position\<close>

text \<open>The \<open>else\<close> branch of the opening loop: one execution cycle.\<close>

definition open_cycle :: "'w bot \<Rightarrow> real \<Rightarrow> real \<Rightarrow> ('w, unit) comp" where
  "open_cycle b spot_ask1 coin_bid1 =
     bindE (liftE (getitem (multipler b) (coin b))) (\<lambda>m.
     bindE (liftE (open_sizing (amount b) m coin_bid1 (spot_fee_rate b) (contract_fee_rate b))) (\<lambda>z.
     bindE (retry_wrapper b (spot_place_order_kw b)
              [(''symbol'', PyStr (spot_symbol_type2 b)),
               (''direction'', PyStr ''long''),
               (''price'', PyFloat (spot_ask1 * (1 + slippage b))),
               (''amount'', PyFloat (spot_amount z))]
              ''Long spot orders'' 1 True) (\<lambda>spot_order_info.
     bindE (retry_wrapper b (future_place_order_kw b)
              [(''symbol'', PyStr (future_symbol_type1 b)),
               (''direction'', PyStr ''open_short''),
               (''price'', PyFloat (py_round (coin_bid1 * (1 - slippage b)) (coin_precision b))),
               (''amount'', PyInt (contract_num z))]
              ''Short coin-margin orders'' 1 True) (\<lambda>future_order_info.
     bindE (sleepE b 2) (\<lambda>_.
     bindE (gateway Fetch_balance (fetch_balance (exchange b))) (\<lambda>balance.
     bindE (liftE (getitem balance (coin b))) (\<lambda>num.
     bindE (retry_wrapper b (account_transfer_kw b)
              [(''currency'', PyStr (coin b)),
               (''amount'', PyFloat num),
               (''from_account'', PyStr ''spot''),
               (''to_account'', PyStr ''coin-margin'')]
              ''Transfer (SPOT --> COIN-M)'' 1 True) (\<lambda>_.
     bindE (liftE (average_of spot_order_info)) (\<lambda>_.
     returnE ())))))))))"

text \<open>One pass through the body of \<open>while True\<close>; the value is the new \<open>execute_num\<close>.\<close>

definition open_iteration :: "'w bot \<Rightarrow> int \<Rightarrow> ('w, int) comp" where
  "open_iteration b execute_num =
     bindE (gateway (Ticker_spot (spot_symbol_type1 b))
              (publicGetTickerBookTicker (exchange b) (spot_symbol_type1 b))) (\<lambda>t.
     bindE (gateway (Ticker_future (future_symbol_type1 b))
              (dapiPublicGetTickerBookTicker (exchange b) (future_symbol_type1 b))) (\<lambda>ts.
     bindE (liftE (case ts of [] \<Rightarrow> Inl (Exception IndexError) | t0 # _ \<Rightarrow> Inr (bidPrice t0))) (\<lambda>coin_bid1.
     bindE (liftE (py_div coin_bid1 (askPrice t))) (\<lambda>q.
     bindE (if q - 1 < threshold b
            then bindE (logE ''Price difference SMALLER than threshold >>> Retrying...'')
                   (\<lambda>_. returnE execute_num)
            else bindE (logE ''Price difference LARGER than threshold >>> Starting arbitrage...'')
                   (\<lambda>_. bindE (open_cycle b (askPrice t) coin_bid1)
                   (\<lambda>_. returnE (execute_num + 1)))) (\<lambda>execute_num'.
     bindE (sleepE b 2) (\<lambda>_.
     returnE execute_num'))))))"

text \<open>
  The loop, with fuel: \<open>None\<close> is the loop still polling when the fuel runs out.
  \<open>Inr ()\<close> is the \<open>break\<close>.
\<close>

fun open_loop :: "nat \<Rightarrow> 'w bot \<Rightarrow> int \<Rightarrow> 'w st \<Rightarrow> ((error + unit) \<times> 'w st) option" where
  "open_loop 0 b execute_num s = None"
| "open_loop (Suc k) b execute_num s =
     (case open_iteration b execute_num s of
        (Inl e, s') \<Rightarrow> Some (Inl e, s')
      | (Inr execute_num', s') \<Rightarrow>
          if num_maximum b \<le> execute_num'
          then Some (Inr (), emit (Log ''Maximum execution number reached >>> Position opening stops.'') s')
          else open_loop k b execute_num' s')"

definition open_position :: "nat \<Rightarrow> 'w bot \<Rightarrow> 'w st \<Rightarrow> ((error + unit) \<times> 'w st) option" where
  "open_position fuel b s = open_loop fuel b 0 s"

section \<open>close\_position\_utils and close\_position\<close>

text \<open>
  The \<open>else\<close> branch of the closing loop. \<open>num\<close> is the variable assigned at line 237,
  before the loop.
\<close>

definition close_cycle :: "'w bot \<Rightarrow> real \<Rightarrow> real \<Rightarrow> real \<Rightarrow> ('w, unit) comp" where
  "close_cycle b num spot_ask1 coin_bid1 =
     bindE (liftE (getitem (multipler b) (coin b))) (\<lambda>m.
     bindE (liftE (close_sizing (amount b) m coin_bid1 (contract_fee_rate b))) (\<lambda>z.
     bindE (retry_wrapper b (future_place_order_kw b)
              [(''symbol'', PyStr (future_symbol_type1 b)),
               (''direction'', PyStr ''close_short''),
               (''price'', PyFloat (py_round (coin_bid1 * (1 + slippage b)) (coin_precision b))),
               (''amount'', PyInt (contract_num z))]
              ''Close short coin-margin orders'' 1 True) (\<lambda>future_order_info.
     bindE (retry_wrapper b (spot_place_order_kw b)
              [(''symbol'', PyStr (spot_symbol_type2 b)),
               (''direction'', PyStr ''short''),
               (''price'', PyFloat (spot_ask1 * (1 - slippage b))),
               (''amount'', PyFloat (spot_amount z))]
              ''Long spot orders'' 1 True) (\<lambda>spot_order_info.
     bindE (sleepE b 2) (\<lambda>_.
     bindE (retry_wrapper b (account_transfer_kw b)
              [(''currency'', PyStr (coin b)),
               (''amount'', PyFloat num),
               (''from_account'', PyStr ''coin-margin''),
               (''to_account'', PyStr ''spot'')]
              ''Transfer (COIN-M --> SPOT)'' 1 True) (\<lambda>_.
     bindE (liftE (average_of spot_order_info)) (\<lambda>_.
     returnE ())))))))"

definition close_iteration :: "'w bot \<Rightarrow> real \<Rightarrow> int \<Rightarrow> ('w, int) comp" where
  "close_iteration b num now_execute_num =
     bindE (gateway (Ticker_spot (spot_symbol_type1 b))
              (publicGetTickerBookTicker (exchange b) (spot_symbol_type1 b))) (\<lambda>t.
     bindE (gateway (Ticker_future (future_symbol_type1 b))
              (dapiPublicGetTickerBookTicker (exchange b) (future_symbol_type1 b))) (\<lambda>ts.
     bindE (liftE (case ts of [] \<Rightarrow> Inl (Exception IndexError) | t0 # _ \<Rightarrow> Inr (askPrice t0))) (\<lambda>coin_bid1.
     bindE (liftE (py_div coin_bid1 (bidPrice t))) (\<lambda>q.
     bindE (if threshold b < q - 1
            then bindE (logE ''Price difference LARGER than threshold >>> Retrying...'')
                   (\<lambda>_. returnE now_execute_num)
            else bindE (logE ''Price difference SMALLER than threshold >>> Stopping arbitrage...'')
                   (\<lambda>_. bindE (close_cycle b num (bidPrice t) coin_bid1)
                   (\<lambda>_. returnE (now_execute_num + 1)))) (\<lambda>now_execute_num'.
     bindE (sleepE b 2) (\<lambda>_.
     returnE now_execute_num'))))))"

text \<open>The closing loop has no \<open>break\<close>: it ends by \<open>exit()\<close> or by an exception.\<close>

fun close_loop :: "nat \<Rightarrow> 'w bot \<Rightarrow> real \<Rightarrow> int \<Rightarrow> 'w st \<Rightarrow> (error \<times> 'w st) option" where
  "close_loop 0 b num now_execute_num s = None"
| "close_loop (Suc k) b num now_execute_num s =
     (case close_iteration b num now_execute_num s of
        (Inl e, s') \<Rightarrow> Some (e, s')
      | (Inr now_execute_num', s') \<Rightarrow>
          if num_maximum b \<le> now_execute_num'
          then Some (SystemExit,
                 emit (Log ''Maximum execution number reached >>> Position closing stops.'') s')
          else close_loop k b num now_execute_num' s')"

text \<open>
  The two balance reads before the loop; the value is \<open>num\<close>. The comparison of \<open>num\<close>
  with \<open>self.amount\<close> that follows only logs (its \<open>exit()\<close> is commented out).
\<close>

definition close_prelude :: "'w bot \<Rightarrow> ('w, real) comp" where
  "close_prelude b =
     bindE (gateway Fetch_balance (fetch_balance (exchange b))) (\<lambda>balance.
     bindE (liftE (getitem balance ''USDT'')) (\<lambda>_.
     bindE (gateway Fetch_balance (fetch_balance (exchange b))) (\<lambda>balance.
     liftE (getitem balance (coin b)))))"

definition close_position_utils :: "nat \<Rightarrow> 'w bot \<Rightarrow> 'w st \<Rightarrow> (error \<times> 'w st) option" where
  "close_position_utils fuel b s =
     (case close_prelude b s of
        (Inl e, s') \<Rightarrow> Some (e, s')
      | (Inr num, s') \<Rightarrow> close_loop fuel b num 0 s')"

text \<open>
  The supervisor: \<open>restarts\<close> bounds the number of times the \<open>while True\<close> body runs,
  \<open>fuel\<close> the polls of each run. \<open>Some\<close> is the process ending with the error that left
  \<open>close_position\<close>.
\<close>

fun close_position :: "nat \<Rightarrow> nat \<Rightarrow> 'w bot \<Rightarrow> 'w st \<Rightarrow> (error \<times> 'w st) option" where
  "close_position 0 fuel b s = None"
| "close_position (Suc restarts) fuel b s =
     (case close_position_utils fuel b s of
        None \<Rightarrow> None
      | Some (SystemExit, s') \<Rightarrow> Some (SystemExit, s')
      | Some (Exception e, s') \<Rightarrow>
          close_position restarts fuel b
            (sleep b 2 (emit (Log ''Closing positions FAILED >>> Retrying...'') s')))"

section \<open>Reading a trace\<close>

definition new_events :: "'w st \<Rightarrow> 'w st \<Rightarrow> event list" where
  "new_events s s' = drop (length (trace s)) (trace s')"

fun attempts :: "event list \<Rightarrow> (string \<times> pydict) list" where
  "attempts [] = []"
| "attempts (Attempt a p # evs) = (a, p) # attempts evs"
| "attempts (_ # evs) = attempts evs"

fun alerts :: "event list \<Rightarrow> (string \<times> pydict) list" where
  "alerts [] = []"
| "alerts (Alert a p # evs) = (a, p) # alerts evs"
| "alerts (_ # evs) = alerts evs"

text \<open>The \<open>direction\<close> arguments of the order attempts of a trace, in order.\<close>

definition order_directions :: "event list \<Rightarrow> pyval list" where
  "order_directions evs = List.map_filter (\<lambda>(a, p). map_of p ''direction'') (attempts evs)"

section \<open>A simulated exchange\<close>

text \<open>
  A small exchange to run the bot on: fixed quotes, a free coin balance that a spot buy
  raises and a spot sell lowers, a clock that \<open>time.sleep\<close> advances, and a record of the
  order and transfer calls it received. The spot ticker fails on the polls listed in
  \<open>bad_polls\<close>.
\<close>

datatype sim_call =
    Buy pyval pyval pyval
  | Sell pyval pyval pyval
  | PostOrder pydict
  | AssetTransfer pydict

record sim =
  sim_time :: real
  sim_free :: real
  sim_polls :: nat
  sim_calls :: "sim_call list"

definition quantity_of :: "pyval \<Rightarrow> real" where
  "quantity_of v = (case v of PyFloat x \<Rightarrow> x | PyInt i \<Rightarrow> of_int i | PyStr _ \<Rightarrow> 0)"

definition sim_exchange :: "ticker \<Rightarrow> ticker \<Rightarrow> nat list \<Rightarrow> sim exchange" where
  "sim_exchange spot fut bad_polls =
     \<lparr>create_limit_buy_order = (\<lambda>symbol amt price w.
        (Inr [(''average'', price)],
         w\<lparr>sim_free := sim_free w + quantity_of amt,
           sim_calls := sim_calls w @ [Buy symbol amt price]\<rparr>)),
      create_limit_sell_order = (\<lambda>symbol amt price w.
        (Inr [(''average'', price)],
         w\<lparr>sim_free := sim_free w - quantity_of amt,
           sim_calls := sim_calls w @ [Sell symbol amt price]\<rparr>)),
      dapiPrivatePostOrder = (\<lambda>params w.
        (Inr [(''status'', PyStr ''NEW'')], w\<lparr>sim_calls := sim_calls w @ [PostOrder params]\<rparr>)),
      sapiPostAssetTransfer = (\<lambda>params w.
        (Inr [(''tranId'', PyInt 1)], w\<lparr>sim_calls := sim_calls w @ [AssetTransfer params]\<rparr>)),
      fetch_balance = (\<lambda>w. (Inr [(''USDT'', 1000), (''BTC'', sim_free w)], w)),
      publicGetTickerBookTicker = (\<lambda>symbol w.
        (if sim_polls w \<in> set bad_polls then Inl (Exception GatewayError) else Inr spot,
         w\<lparr>sim_polls := Suc (sim_polls w)\<rparr>)),
      dapiPublicGetTickerBookTicker = (\<lambda>symbol w. (Inr [fut], w))\<rparr>"

definition sim_clock :: "sim clock" where
  "sim_clock = \<lparr>time_time = sim_time, time_sleep = (\<lambda>secs w. w\<lparr>sim_time := sim_time w + secs\<rparr>)\<rparr>"

definition sim_bot :: "ticker \<Rightarrow> ticker \<Rightarrow> nat list \<Rightarrow> sim bot" where
  "sim_bot spot fut bad_polls =
     \<lparr>exchange = sim_exchange spot fut bad_polls,
      clock = sim_clock,
      coin = ''BTC'',
      future_date = ''210625'',
      coin_precision = 1,
      slippage = 0,
      spot_fee_rate = 0,
      contract_fee_rate = 0,
      multipler = [(''BTC'', 100), (''ETH'', 10)],
      amount = 1000,
      num_maximum = 1,
      threshold = 1 / 200,
      max_trial = 3\<rparr>"

definition sim_start :: "real \<Rightarrow> sim st" where
  "sim_start free =
     \<lparr>world = \<lparr>sim_time = 0, sim_free = free, sim_polls = 0, sim_calls = []\<rparr>, trace = []\<rparr>"

text \<open>
  Two ready bots. For \<open>open_bot\<close> the futures bid 125 is a quarter above the spot ask
  100, so the opening threshold is met. For \<open>close_bot\<close> the futures ask and the spot bid
  are both 100, so the closing threshold is met, and the target amount is 5.
\<close>

definition open_bot :: "sim bot" where
  "open_bot = sim_bot \<lparr>askPrice = 100, bidPrice = 99\<rparr> \<lparr>askPrice = 126, bidPrice = 125\<rparr> []"

definition close_bot :: "nat list \<Rightarrow> sim bot" where
  "close_bot bad_polls =
     (sim_bot \<lparr>askPrice = 101, bidPrice = 100\<rparr> \<lparr>askPrice = 100, bidPrice = 99\<rparr> bad_polls)
       \<lparr>amount := 5\<rparr>"

text \<open>An operation that the exchange rejects on every call.\<close>

definition always_rejects :: "pydict \<Rightarrow> 'w \<Rightarrow> (error + pydict) \<times> 'w" where
  "always_rejects params w = (Inl (Exception GatewayError), w)"

text \<open>The closing bot on an exchange that rejects every futures order.\<close>

definition rejecting_bot :: "sim bot" where
  "rejecting_bot = (close_bot [])\<lparr>exchange := (exchange (close_bot []))\<lparr>dapiPrivatePostOrder := always_rejects\<rparr>\<rparr>"

text \<open>
  The closing bot with two executions allowed, on an exchange whose spot ticker fails on
  the second poll.
\<close>

definition restart_bot :: "sim bot" where
  "restart_bot = (close_bot [1])\<lparr>num_maximum := 2\<rparr>"

section \<open>Auxiliary predicates\<close>

text \<open>
  \<open>same_frame p q\<close>: the dictionary \<open>q\<close> has the keys of \<open>p\<close>, in the same order, and
  the same value under every key but \<open>timestamp\<close>; it is \<open>p\<close> itself when \<open>p\<close> has no
  \<open>timestamp\<close>.
\<close>

definition same_frame :: "pydict \<Rightarrow> pydict \<Rightarrow> bool" where
  "same_frame p q = (map fst q = map fst p \<and> (\<forall>k. k \<noteq> ''timestamp'' \<longrightarrow> map_of q k = map_of p k)
      \<and> (''timestamp'' \<notin> fst ` set p \<longrightarrow> q = p))"

text \<open>
  A run of attempts of one action, with the back-off sleeps between: each attempt is made
  on the dictionary with its \<open>timestamp\<close>, if it has one, set from a reading of the clock.
\<close>

definition attempt_run :: "'w bot \<Rightarrow> string \<Rightarrow> real \<Rightarrow> pydict \<Rightarrow> event list \<Rightarrow> bool" where
  "attempt_run b act sl p evs =
     (\<forall>e\<in>set evs. e = Sleep sl \<or> (\<exists>w. e = Attempt act (refresh_timestamp b p w)))"

text \<open>
  \<open>retried_to_give_up\<close>: the operation raises the ordinary exception \<open>e\<close> on these
  parameters without changing the world, and \<open>retry_wrapper\<close> (with \<open>is_exit\<close> true) attempts
  it \<open>max_trial\<close> times on the unchanged parameters, sends one alert and exits.
\<close>

definition retried_to_give_up ::
  "'w bot \<Rightarrow> (pydict \<Rightarrow> 'w \<Rightarrow> (error + 'r) \<times> 'w) \<Rightarrow> pydict \<Rightarrow> string \<Rightarrow> real \<Rightarrow> 'w st \<Rightarrow> exn \<Rightarrow> bool" where
  "retried_to_give_up b func params act sl s e =
     ((\<forall>w. func params w = (Inl (Exception e), w))
      \<and> (case retry_wrapper b func params act sl True s of (r, s') \<Rightarrow>
            r = Inl SystemExit
          \<and> attempts (new_events s s') = replicate (nat (max_trial b)) (act, params)
          \<and> alerts (new_events s s') = [(act, params)]))"

text \<open>
  \<open>emits m Q\<close>: from every state, the computation \<open>m\<close> only appends events to the trace,
  and its result and the events it appends satisfy \<open>Q\<close>.
\<close>

definition emits :: "('w, 'a) comp \<Rightarrow> (error + 'a \<Rightarrow> event list \<Rightarrow> bool) \<Rightarrow> bool" where
  "emits m Q = (\<forall>s. \<exists>evs. trace (snd (m s)) = trace s @ evs \<and> Q (fst (m s)) evs)"

text \<open>
  What is known of a call of \<open>retry_wrapper\<close> (with \<open>is_exit\<close> true) on a dictionary with
  no \<open>timestamp\<close>: it attempts that one action on that one dictionary, reads no balance,
  and either exits or returns the result of an attempt, then without an alert.
\<close>

definition retry_spec :: "string \<Rightarrow> pydict \<Rightarrow> error + 'r option \<Rightarrow> event list \<Rightarrow> bool" where
  "retry_spec act p r evs =
     ((\<exists>k. attempts evs = replicate k (act, p))
      \<and> Fetch_balance \<notin> set evs
      \<and> (r = Inl SystemExit \<or> ((\<exists>v. r = Inr (Some v)) \<and> attempts evs \<noteq> [] \<and> alerts evs = [])))"

text \<open>
  \<open>first_then a b xs\<close>: the list \<open>xs\<close> is a run of \<open>a\<close> followed by a run of \<open>b\<close>, and
  starts with an \<open>a\<close> unless it is empty.
\<close>

definition first_then :: "'a \<Rightarrow> 'a \<Rightarrow> 'a list \<Rightarrow> bool" where
  "first_then a b xs = (list_all (\<lambda>x. x = b) (dropWhile (\<lambda>x. x = a) xs) \<and> (xs = [] \<or> hd xs = a))"

section \<open>Properties: order sizes\<close>








section \<open>Properties: retry\_wrapper\<close>


lemma same_frame_refl: "same_frame p p"
  by (simp add: same_frame_def)

lemma same_frame_trans: "same_frame p q \<Longrightarrow> same_frame q r \<Longrightarrow> same_frame p r"
  by (auto simp: same_frame_def)

lemma same_frame_refresh: "same_frame p (refresh_timestamp b p w)"
  by (auto simp: same_frame_def refresh_timestamp_def update_keys update_conv' image_iff)

lemma attempts_append: "attempts (xs @ ys) = attempts xs @ attempts ys"
  by (induction xs rule: attempts.induct) simp_all

lemma alerts_append: "alerts (xs @ ys) = alerts xs @ alerts ys"
  by (induction xs rule: alerts.induct) simp_all

lemma trace_emit: "trace (emit ev s) = trace s @ [ev]"
  by (simp add: emit_def)

lemma world_emit: "world (emit ev s) = world s"
  by (simp add: emit_def)

lemma trace_sleep: "trace (sleep b secs s) = trace s @ [Sleep secs]"
  by (simp add: sleep_def emit_def)

lemma refresh_timestamp_twice:
  "refresh_timestamp b (refresh_timestamp b p w) w' = refresh_timestamp b p w'"
  by (simp add: refresh_timestamp_def dom_update)

lemma attempt_run_frame:
  "attempt_run b act sl (refresh_timestamp b p w) evs \<Longrightarrow> attempt_run b act sl p evs"
  unfolding attempt_run_def by (simp add: refresh_timestamp_twice)

lemma retry_attempts_shape:
  "\<exists>evs. trace (snd (retry_attempts b func act sl n p s)) = trace s @ evs
     \<and> attempt_run b act sl p evs
     \<and> same_frame p (snd (fst (retry_attempts b func act sl n p s)))
     \<and> length (attempts evs) \<le> n
     \<and> (fst (fst (retry_attempts b func act sl n p s)) = None \<longrightarrow> length (attempts evs) = n)
     \<and> (fst (fst (retry_attempts b func act sl n p s)) \<noteq> None \<longrightarrow> 1 \<le> length (attempts evs))
     \<and> (\<forall>e. fst (fst (retry_attempts b func act sl n p s)) \<noteq> Some (Inl (Exception e)))"
proof (induction n arbitrary: p s)
  case 0
  show ?case by (simp add: attempt_run_def same_frame_refl)
next
  case (Suc n)
  define p' where "p' = refresh_timestamp b p (world s)"
  define s1 where "s1 = emit (Attempt act p') s"
  have fr: "same_frame p p'" unfolding p'_def by (rule same_frame_refresh)
  obtain r w' where f: "func p' (world s1) = (r, w')" by (cases "func p' (world s1)")
  have t1: "trace (s1\<lparr>world := w'\<rparr>) = trace s @ [Attempt act p']"
    by (simp add: s1_def trace_emit)
  have one: "attempt_run b act sl p [Attempt act p']"
    by (auto simp: attempt_run_def p'_def)
  show ?case
  proof (cases r)
    case (Inr v)
    then have eq: "retry_attempts b func act sl (Suc n) p s = ((Some (Inr v), p'), s1\<lparr>world := w'\<rparr>)"
      using f by (simp add: p'_def s1_def Let_def)
    show ?thesis unfolding eq using t1 one fr by (intro exI [of _ "[Attempt act p']"]) simp
  next
    case (Inl e)
    show ?thesis
    proof (cases e)
      case SystemExit
      then have eq: "retry_attempts b func act sl (Suc n) p s = ((Some (Inl SystemExit), p'), s1\<lparr>world := w'\<rparr>)"
        using f Inl by (simp add: p'_def s1_def Let_def)
      show ?thesis unfolding eq using t1 one fr by (intro exI [of _ "[Attempt act p']"]) simp
    next
      case (Exception x)
      define s2 where "s2 = sleep b sl (s1\<lparr>world := w'\<rparr>)"
      have eq: "retry_attempts b func act sl (Suc n) p s = retry_attempts b func act sl n p' s2"
        using f Inl Exception by (simp add: p'_def s1_def s2_def Let_def)
      have t2: "trace s2 = trace s @ [Attempt act p', Sleep sl]"
        by (simp add: s2_def trace_sleep t1)
      obtain evs where
        a: "trace (snd (retry_attempts b func act sl n p' s2)) = trace s2 @ evs"
        and b: "attempt_run b act sl p' evs"
        and c: "same_frame p' (snd (fst (retry_attempts b func act sl n p' s2)))"
        and d: "length (attempts evs) \<le> n"
        and e: "fst (fst (retry_attempts b func act sl n p' s2)) = None \<longrightarrow> length (attempts evs) = n"
        and e': "fst (fst (retry_attempts b func act sl n p' s2)) \<noteq> None \<longrightarrow> 1 \<le> length (attempts evs)"
        and g: "\<forall>e. fst (fst (retry_attempts b func act sl n p' s2)) \<noteq> Some (Inl (Exception e))"
        using Suc.IH [of p' s2] by (elim exE conjE) (rule that)
      have "attempt_run b act sl p evs"
        using b unfolding p'_def by (rule attempt_run_frame)
      then have b': "attempt_run b act sl p ([Attempt act p', Sleep sl] @ evs)"
        using one by (auto simp: attempt_run_def)
      show ?thesis unfolding eq
        apply (intro exI [of _ "[Attempt act p', Sleep sl] @ evs"])
        using a b' c d e g t2 same_frame_trans [OF fr c] by (simp add: attempts_append)
    qed
  qed
qed

lemma retry_attempts_always_fails:
  assumes "\<forall>p w. \<exists>e w'. func p w = (Inl (Exception e), w')"
  shows "fst (fst (retry_attempts b func act sl n p s)) = None"
proof (induction n arbitrary: p s)
  case 0
  show ?case by simp
next
  case (Suc n)
  obtain e w' where "func (refresh_timestamp b p (world s)) (world (emit (Attempt act (refresh_timestamp b p (world s))) s)) = (Inl (Exception e), w')"
    using assms by blast
  then show ?case using Suc.IH by (simp add: Let_def)
qed

lemma attempt_run_Nil: "attempt_run b act sl p []"
  by (simp add: attempt_run_def)

lemma attempt_run_alerts: "attempt_run b act sl p evs \<Longrightarrow> alerts evs = []"
proof (induction evs)
  case Nil
  show ?case by simp
next
  case (Cons e evs)
  then have "attempt_run b act sl p evs" by (simp add: attempt_run_def)
  with Cons show ?case by (cases e) (auto simp: attempt_run_def)
qed

lemma attempt_run_attempts:
  "attempt_run b act sl p evs \<Longrightarrow> (a, q) \<in> set (attempts evs) \<Longrightarrow> a = act \<and> (\<exists>w. q = refresh_timestamp b p w)"
proof (induction evs)
  case Nil
  then show ?case by simp
next
  case (Cons e evs)
  then have "attempt_run b act sl p evs" by (simp add: attempt_run_def)
  with Cons show ?case by (cases e) (auto simp: attempt_run_def)
qed

lemma attempt_run_labels:
  "attempt_run b act sl p evs \<Longrightarrow> map fst (attempts evs) = replicate (length (attempts evs)) act"
proof (induction evs)
  case Nil
  show ?case by simp
next
  case (Cons e evs)
  then have "attempt_run b act sl p evs" by (simp add: attempt_run_def)
  with Cons show ?case by (cases e) (auto simp: attempt_run_def)
qed

lemma new_events_append: "trace s' = trace s @ evs \<Longrightarrow> new_events s s' = evs"
  by (simp add: new_events_def)

lemma retry_wrapper_dict_shape:
  fixes b func p act sl is_exit s
  defines "R \<equiv> retry_wrapper_dict b func p act sl is_exit s"
  defines "RA \<equiv> retry_attempts b func act sl (nat (max_trial b)) p s"
  shows "\<exists>evs. attempt_run b act sl p evs \<and> same_frame p (snd (fst R)) \<and>
     ((fst (fst RA) = None \<and> length (attempts evs) = nat (max_trial b)
         \<and> trace (snd R) = trace s @ evs @
              [Log (act @ '' FAIL too many times... Arbitrage STOPs!''), Alert act (snd (fst R))]
         \<and> fst (fst R) = (if is_exit then Inl SystemExit else Inr None))
      \<or> (fst (fst RA) \<noteq> None \<and> 1 \<le> length (attempts evs) \<and> length (attempts evs) \<le> nat (max_trial b)
         \<and> trace (snd R) = trace s @ evs
         \<and> (fst (fst R) = Inl SystemExit \<or> (\<exists>v. fst (fst R) = Inr (Some v)))))"
proof -
  obtain ro p' s1 where ra: "RA = ((ro, p'), s1)" by (metis surj_pair)
  obtain evs where
        a: "trace s1 = trace s @ evs"
    and b: "attempt_run b act sl p evs"
    and c: "same_frame p p'"
    and d: "length (attempts evs) \<le> nat (max_trial b)"
    and e: "ro = None \<longrightarrow> length (attempts evs) = nat (max_trial b)"
    and e': "ro \<noteq> None \<longrightarrow> 1 \<le> length (attempts evs)"
    and g: "\<forall>e. ro \<noteq> Some (Inl (Exception e))"
    using retry_attempts_shape [of b func act sl "nat (max_trial b)" p s] ra [unfolded RA_def]
    by (elim exE conjE) (rule that, simp_all)
  show ?thesis
  proof (cases ro)
    case None
    then have "R = ((if is_exit then Inl SystemExit else Inr None, p'),
                    emit (Alert act p') (emit (Log (act @ '' FAIL too many times... Arbitrage STOPs!'')) s1))"
      using ra by (simp add: R_def RA_def retry_wrapper_dict_def Let_def)
    then show ?thesis using None a b c e ra by (intro exI [of _ evs]) (simp add: trace_emit)
  next
    case (Some r)
    show ?thesis
    proof (cases r)
      case (Inr v)
      then have "R = ((Inr (Some v), p'), s1)"
        using ra Some by (simp add: R_def RA_def retry_wrapper_dict_def)
      then show ?thesis using Some a b c d e' ra by (intro exI [of _ evs]) simp
    next
      case (Inl x)
      then have x: "x = SystemExit" using g Some by (cases x) auto
      then have "R = ((Inl SystemExit, p'), s1)"
        using ra Some Inl by (simp add: R_def RA_def retry_wrapper_dict_def)
      then show ?thesis using Some a b c d e' ra by (intro exI [of _ evs]) simp
    qed
  qed
qed

lemma retry_wrapper_proj:
  "retry_wrapper b func p act sl is_exit s =
     (fst (fst (retry_wrapper_dict b func p act sl is_exit s)), snd (retry_wrapper_dict b func p act sl is_exit s))"
  by (simp add: retry_wrapper_def split: prod.splits)

text \<open>
  C2. When the operation raises an ordinary exception on every call, \<open>retry_wrapper\<close>
  invokes it exactly \<open>max_trial\<close> times (no time when \<open>max_trial\<close> is not positive), then
  logs and sends exactly one alert, the last thing it does, and exits (or returns \<open>None\<close>
  when \<open>is_exit\<close> is false). When an attempt succeeds, it sends no alert.
\<close>

theorem retry_wrapper_exhaustion:
  "((\<forall>p w. \<exists>e w'. func p w = (Inl (Exception e), w')) \<longrightarrow>
      (\<exists>evs p'. new_events s (snd (retry_wrapper b func params act sl is_exit s)) =
                   evs @ [Log (act @ '' FAIL too many times... Arbitrage STOPs!''), Alert act p']
         \<and> alerts evs = []
         \<and> map fst (attempts evs) = replicate (nat (max_trial b)) act
         \<and> fst (retry_wrapper b func params act sl is_exit s) = (if is_exit then Inl SystemExit else Inr None)))
   \<and> (\<forall>v. fst (retry_wrapper b func params act sl is_exit s) = Inr (Some v) \<longrightarrow>
         alerts (new_events s (snd (retry_wrapper b func params act sl is_exit s))) = [])"
proof (intro conjI impI allI)
  assume f: "\<forall>p w. \<exists>e w'. func p w = (Inl (Exception e), w')"
  have n: "fst (fst (retry_attempts b func act sl (nat (max_trial b)) params s)) = None"
    using f by (rule retry_attempts_always_fails)
  obtain evs where b: "attempt_run b act sl params evs"
    and l: "length (attempts evs) = nat (max_trial b)"
    and t: "trace (snd (retry_wrapper_dict b func params act sl is_exit s)) = trace s @ evs @
              [Log (act @ '' FAIL too many times... Arbitrage STOPs!''),
               Alert act (snd (fst (retry_wrapper_dict b func params act sl is_exit s)))]"
    and r: "fst (fst (retry_wrapper_dict b func params act sl is_exit s)) = (if is_exit then Inl SystemExit else Inr None)"
    using retry_wrapper_dict_shape [of b act sl params func is_exit s] n by auto
  show "\<exists>evs p'. new_events s (snd (retry_wrapper b func params act sl is_exit s)) =
                   evs @ [Log (act @ '' FAIL too many times... Arbitrage STOPs!''), Alert act p']
         \<and> alerts evs = []
         \<and> map fst (attempts evs) = replicate (nat (max_trial b)) act
         \<and> fst (retry_wrapper b func params act sl is_exit s) = (if is_exit then Inl SystemExit else Inr None)"
    using attempt_run_alerts [OF b] attempt_run_labels [OF b] l r new_events_append [OF t]
    by (intro exI [of _ evs] exI [of _ "snd (fst (retry_wrapper_dict b func params act sl is_exit s))"])
       (simp add: retry_wrapper_proj)
next
  fix v
  assume v: "fst (retry_wrapper b func params act sl is_exit s) = Inr (Some v)"
  then have "fst (fst (retry_wrapper_dict b func params act sl is_exit s)) = Inr (Some v)"
    by (simp add: retry_wrapper_proj)
  then obtain evs where b: "attempt_run b act sl params evs"
    and t: "trace (snd (retry_wrapper_dict b func params act sl is_exit s)) = trace s @ evs"
    using retry_wrapper_dict_shape [of b act sl params func is_exit s] by (auto split: if_splits)
  show "alerts (new_events s (snd (retry_wrapper b func params act sl is_exit s))) = []"
    using attempt_run_alerts [OF b] new_events_append [OF t] by (simp add: retry_wrapper_proj)
qed


lemma attempt_run_no_timestamp:
  "attempt_run b act sl p evs \<Longrightarrow> ''timestamp'' \<notin> fst ` set p \<Longrightarrow>
     attempts evs = replicate (length (attempts evs)) (act, p)"
proof (induction evs)
  case Nil
  show ?case by simp
next
  case (Cons e evs)
  then have "attempt_run b act sl p evs" by (simp add: attempt_run_def)
  with Cons show ?case by (cases e) (auto simp: attempt_run_def refresh_timestamp_def)
qed

lemma attempt_run_hd:
  "attempt_run b act sl p evs \<Longrightarrow> attempts evs \<noteq> [] \<Longrightarrow> fst (hd (attempts evs)) = act"
  using attempt_run_attempts [of b act sl p evs "fst (hd (attempts evs))" "snd (hd (attempts evs))"]
  by simp


lemmas sim_defs = sim_exchange_def sim_clock_def sim_bot_def sim_start_def quantity_of_def always_rejects_def
  open_bot_def close_bot_def

lemmas run_defs = bindE_def returnE_def liftE_def emit_def gateway_def sleep_def sleepE_def logE_def
  py_int_def py_div_def py_round_def getitem_def kwargs_def refresh_timestamp_def
  retry_wrapper_def retry_wrapper_dict_def binance_spot_place_order_def binance_future_place_order_def
  binance_account_transfer_def spot_place_order_kw_def future_place_order_kw_def account_transfer_kw_def
  open_sizing_def close_sizing_def average_of_def
  spot_symbol_type1_def spot_symbol_type2_def future_symbol_type1_def new_events_def

theorem retry_wrapper_exhaustion_witness:
  "(\<forall>p (w::sim). \<exists>e w'. always_rejects p w = (Inl (Exception e), w'))
   \<and> map fst (attempts (new_events (sim_start 0)
        (snd (retry_wrapper open_bot always_rejects [(''symbol'', PyStr ''BTC/USDT'')]
                ''Long spot orders'' 1 True (sim_start 0)))))
       = [''Long spot orders'', ''Long spot orders'', ''Long spot orders'']
   \<and> map fst (alerts (new_events (sim_start 0)
        (snd (retry_wrapper open_bot always_rejects [(''symbol'', PyStr ''BTC/USDT'')]
                ''Long spot orders'' 1 True (sim_start 0)))))
       = [''Long spot orders'']
   \<and> fst (retry_wrapper open_bot always_rejects [(''symbol'', PyStr ''BTC/USDT'')]
             ''Long spot orders'' 1 True (sim_start 0))
       = Inl SystemExit
   \<and> fst (retry_wrapper open_bot (spot_place_order_kw open_bot)
              [(''symbol'', PyStr ''BTC/USDT''), (''direction'', PyStr ''long''),
               (''price'', PyFloat 100), (''amount'', PyFloat 8)]
              ''Long spot orders'' 1 True (sim_start 0)) = Inr (Some [(''average'', PyFloat 100)])
   \<and> alerts (new_events (sim_start 0)
        (snd (retry_wrapper open_bot (spot_place_order_kw open_bot)
              [(''symbol'', PyStr ''BTC/USDT''), (''direction'', PyStr ''long''),
               (''price'', PyFloat 100), (''amount'', PyFloat 8)]
              ''Long spot orders'' 1 True (sim_start 0)))) = []"
proof -
  let ?p = "[(''symbol'', PyStr ''BTC/USDT''), (''direction'', PyStr ''long''),
               (''price'', PyFloat 100), (''amount'', PyFloat 8)]"
  have h: "\<forall>p (w::sim). \<exists>e w'. always_rejects p w = (Inl (Exception e), w')"
    by (simp add: always_rejects_def)
  have m: "nat (max_trial open_bot) = 3" by (simp add: open_bot_def sim_bot_def)
  note t1 = retry_wrapper_exhaustion [of always_rejects "sim_start 0" open_bot
               "[(''symbol'', PyStr ''BTC/USDT'')]" "''Long spot orders''" 1 True,
               THEN conjunct1, THEN mp, OF h]
  have ok: "fst (retry_wrapper open_bot (spot_place_order_kw open_bot) ?p ''Long spot orders'' 1 True (sim_start 0))
              = Inr (Some [(''average'', PyFloat 100)])"
    by (simp add: run_defs sim_defs eval_nat_numeral Let_def)
  note t2 = retry_wrapper_exhaustion [of "spot_place_order_kw open_bot" "sim_start 0" open_bot ?p
               "''Long spot orders''" 1 True, THEN conjunct2, THEN spec, THEN mp, OF ok]
  from t1 obtain evs p' where
    1: "new_events (sim_start 0) (snd (retry_wrapper open_bot always_rejects [(''symbol'', PyStr ''BTC/USDT'')]
            ''Long spot orders'' 1 True (sim_start 0)))
          = evs @ [Log (''Long spot orders'' @ '' FAIL too many times... Arbitrage STOPs!''), Alert ''Long spot orders'' p']"
    and 2: "alerts evs = []"
    and 3: "map fst (attempts evs) = replicate (nat (max_trial open_bot)) ''Long spot orders''"
    and 4: "fst (retry_wrapper open_bot always_rejects [(''symbol'', PyStr ''BTC/USDT'')]
            ''Long spot orders'' 1 True (sim_start 0)) = Inl SystemExit"
    by auto
  show ?thesis
    unfolding 1 using h 2 3 4 ok t2 m
    by (simp add: attempts_append alerts_append eval_nat_numeral)
qed

lemma retry_attempts_fails_on:
  assumes "\<And>w0 w. \<exists>e w'. func (refresh_timestamp b p w0) w = (Inl (Exception e), w')"
  shows "fst (fst (retry_attempts b func act sl n p s)) = None"
  using assms
proof (induction n arbitrary: p s)
  case 0
  show ?case by simp
next
  case (Suc n)
  obtain e w' where "func (refresh_timestamp b p (world s))
      (world (emit (Attempt act (refresh_timestamp b p (world s))) s)) = (Inl (Exception e), w')"
    using Suc.prems by blast
  moreover have "fst (fst (retry_attempts b func act sl n (refresh_timestamp b p (world s)) s')) = None" for s'
    by (rule Suc.IH) (simp add: refresh_timestamp_twice Suc.prems)
  ultimately show ?case by (simp add: Let_def)
qed

lemma give_up_without_timestamp:
  assumes f: "\<And>w. func params w = (Inl (Exception e), w)"
    and nt: "''timestamp'' \<notin> fst ` set params"
  shows "retried_to_give_up b func params act sl s e"
proof -
  let ?R = "retry_wrapper_dict b func params act sl True s"
  have r: "refresh_timestamp b params w = params" for w
    using nt by (simp add: refresh_timestamp_def)
  have n: "fst (fst (retry_attempts b func act sl (nat (max_trial b)) params s)) = None"
    by (rule retry_attempts_fails_on) (simp add: r f)
  obtain evs where b: "attempt_run b act sl params evs"
    and c: "same_frame params (snd (fst ?R))"
    and l: "length (attempts evs) = nat (max_trial b)"
    and t: "trace (snd ?R) = trace s @ evs @
              [Log (act @ '' FAIL too many times... Arbitrage STOPs!''), Alert act (snd (fst ?R))]"
    and x: "fst (fst ?R) = Inl SystemExit"
    using retry_wrapper_dict_shape [of b act sl params func True s] n by auto
  have p: "snd (fst ?R) = params" using c nt by (simp add: same_frame_def)
  have a: "attempts evs = replicate (nat (max_trial b)) (act, params)"
    using attempt_run_no_timestamp [OF b nt] l by simp
  show ?thesis
    using f x a p attempt_run_alerts [OF b] new_events_append [OF t]
    by (simp add: retried_to_give_up_def retry_wrapper_proj attempts_append alerts_append)
qed

text \<open>
  C4, as stated, fails: a spot order with the direction \<open>sideways\<close> raises \<open>ValueError\<close>
  inside \<open>binance_spot_place_order\<close>, and \<open>retry_wrapper\<close> (here with \<open>max_trial = 3\<close>)
  attempts it three times.
\<close>

theorem config_error_retried_counterexample:
  "spot_place_order_kw open_bot
     [(''symbol'', PyStr ''BTC/USDT''), (''direction'', PyStr ''sideways''),
      (''price'', PyFloat 100), (''amount'', PyFloat 8)] (world (sim_start 0))
     = (Inl (Exception ValueError), world (sim_start 0))
   \<and> map fst (attempts (trace (snd (retry_wrapper open_bot (spot_place_order_kw open_bot)
        [(''symbol'', PyStr ''BTC/USDT''), (''direction'', PyStr ''sideways''),
         (''price'', PyFloat 100), (''amount'', PyFloat 8)]
        ''Long spot orders'' 1 True (sim_start 0)))))
       = [''Long spot orders'', ''Long spot orders'', ''Long spot orders'']"
  by (simp add: run_defs sim_defs eval_nat_numeral Let_def)

text \<open>
  C4, amended. A call whose operation rejects its inputs as a configuration error (a spot
  direction other than \<open>long\<close> and \<open>short\<close>, a futures direction other than \<open>open_short\<close>
  and \<open>close_short\<close>, or an unrecognised pair of accounts) raises an ordinary exception
  before it reaches the exchange, and \<open>retry_wrapper\<close> treats it as any other failure: it
  attempts the call \<open>max_trial\<close> times, then sends the terminal alert and exits.
\<close>

theorem config_errors_are_retried:
  "(direction \<noteq> PyStr ''long'' \<and> direction \<noteq> PyStr ''short'' \<longrightarrow>
      retried_to_give_up b (spot_place_order_kw b)
        [(''symbol'', symbol), (''direction'', direction), (''price'', price), (''amount'', amt)]
        act sl s ValueError)
   \<and> (direction \<noteq> PyStr ''open_short'' \<and> direction \<noteq> PyStr ''close_short'' \<longrightarrow>
      retried_to_give_up b (future_place_order_kw b)
        [(''symbol'', symbol), (''direction'', direction), (''price'', price), (''amount'', amt)]
        act sl s TypeError)
   \<and> (\<not> (from_account = PyStr ''spot'' \<and> to_account = PyStr ''coin-margin'')
        \<and> \<not> (from_account = PyStr ''coin-margin'' \<and> to_account = PyStr ''spot'') \<longrightarrow>
      retried_to_give_up b (account_transfer_kw b)
        [(''currency'', currency), (''amount'', amt), (''from_account'', from_account),
         (''to_account'', to_account)]
        act sl s ValueError)"
proof (intro conjI impI)
  assume "direction \<noteq> PyStr ''long'' \<and> direction \<noteq> PyStr ''short''"
  then show "retried_to_give_up b (spot_place_order_kw b)
        [(''symbol'', symbol), (''direction'', direction), (''price'', price), (''amount'', amt)]
        act sl s ValueError"
    by (intro give_up_without_timestamp)
       (simp_all add: spot_place_order_kw_def kwargs_def binance_spot_place_order_def)
next
  assume "direction \<noteq> PyStr ''open_short'' \<and> direction \<noteq> PyStr ''close_short''"
  then show "retried_to_give_up b (future_place_order_kw b)
        [(''symbol'', symbol), (''direction'', direction), (''price'', price), (''amount'', amt)]
        act sl s TypeError"
    by (intro give_up_without_timestamp)
       (simp_all add: future_place_order_kw_def kwargs_def binance_future_place_order_def)
next
  assume "\<not> (from_account = PyStr ''spot'' \<and> to_account = PyStr ''coin-margin'')
        \<and> \<not> (from_account = PyStr ''coin-margin'' \<and> to_account = PyStr ''spot'')"
  then show "retried_to_give_up b (account_transfer_kw b)
        [(''currency'', currency), (''amount'', amt), (''from_account'', from_account),
         (''to_account'', to_account)]
        act sl s ValueError"
    by (intro give_up_without_timestamp)
       (auto simp: account_transfer_kw_def kwargs_def binance_account_transfer_def)
qed

theorem config_errors_are_retried_witness:
  "PyStr ''sideways'' \<noteq> PyStr ''long'' \<and> PyStr ''sideways'' \<noteq> PyStr ''short''
   \<and> PyStr ''sideways'' \<noteq> PyStr ''open_short'' \<and> PyStr ''sideways'' \<noteq> PyStr ''close_short''
   \<and> \<not> (PyStr ''spot'' = PyStr ''spot'' \<and> PyStr ''margin'' = PyStr ''coin-margin'')
   \<and> \<not> (PyStr ''spot'' = PyStr ''coin-margin'' \<and> PyStr ''margin'' = PyStr ''spot'')
   \<and> fst (retry_wrapper open_bot (spot_place_order_kw open_bot)
        [(''symbol'', PyStr ''BTC/USDT''), (''direction'', PyStr ''sideways''),
         (''price'', PyFloat 100), (''amount'', PyFloat 8)]
        ''Long spot orders'' 1 True (sim_start 0)) = Inl SystemExit
   \<and> length (attempts (new_events (sim_start 0) (snd (retry_wrapper open_bot (future_place_order_kw open_bot)
        [(''symbol'', PyStr ''BTCUSD_210625''), (''direction'', PyStr ''sideways''),
         (''price'', PyFloat 100), (''amount'', PyInt 8)]
        ''Short coin-margin orders'' 1 True (sim_start 0))))) = 3
   \<and> map fst (alerts (new_events (sim_start 0) (snd (retry_wrapper open_bot (account_transfer_kw open_bot)
        [(''currency'', PyStr ''BTC''), (''amount'', PyFloat 8), (''from_account'', PyStr ''spot''),
         (''to_account'', PyStr ''margin'')]
        ''Transfer (SPOT --> COIN-M)'' 1 True (sim_start 0))))) = [''Transfer (SPOT --> COIN-M)'']"
proof -
  have m: "nat (max_trial open_bot) = 3" by (simp add: open_bot_def sim_bot_def)
  note t = config_errors_are_retried [of "PyStr ''sideways''" open_bot _ _ _ _ _ "sim_start 0"
              "PyStr ''spot''" "PyStr ''margin''"]
  have 1: "retried_to_give_up open_bot (spot_place_order_kw open_bot)
        [(''symbol'', PyStr ''BTC/USDT''), (''direction'', PyStr ''sideways''),
         (''price'', PyFloat 100), (''amount'', PyFloat 8)]
        ''Long spot orders'' 1 (sim_start 0) ValueError"
    using t [THEN conjunct1] by simp
  have 2: "retried_to_give_up open_bot (future_place_order_kw open_bot)
        [(''symbol'', PyStr ''BTCUSD_210625''), (''direction'', PyStr ''sideways''),
         (''price'', PyFloat 100), (''amount'', PyInt 8)]
        ''Short coin-margin orders'' 1 (sim_start 0) TypeError"
    using t [THEN conjunct2, THEN conjunct1] by simp
  have 3: "retried_to_give_up open_bot (account_transfer_kw open_bot)
        [(''currency'', PyStr ''BTC''), (''amount'', PyFloat 8), (''from_account'', PyStr ''spot''),
         (''to_account'', PyStr ''margin'')]
        ''Transfer (SPOT --> COIN-M)'' 1 (sim_start 0) ValueError"
    using t [THEN conjunct2, THEN conjunct2] by simp
  show ?thesis
    using 1 2 3 m by (auto simp: retried_to_give_up_def split: prod.splits)
qed


section \<open>Properties: traces of the loops\<close>

lemma emitsD: "emits m Q \<Longrightarrow> \<exists>evs. trace (snd (m s)) = trace s @ evs \<and> Q (fst (m s)) evs"
  by (simp add: emits_def)

lemma emitsI: "(\<And>s. \<exists>evs. trace (snd (m s)) = trace s @ evs \<and> Q (fst (m s)) evs) \<Longrightarrow> emits m Q"
  by (simp add: emits_def)

lemma emits_weaken: "emits m P \<Longrightarrow> (\<And>r evs. P r evs \<Longrightarrow> Q r evs) \<Longrightarrow> emits m Q"
  unfolding emits_def by blast

lemma emits_liftE: "Q r [] \<Longrightarrow> emits (liftE r) Q"
  by (simp add: emits_def liftE_def)

lemma emits_returnE: "Q (Inr a) [] \<Longrightarrow> emits (returnE a) Q"
  by (simp add: emits_def returnE_def)

lemma emits_logE: "Q (Inr ()) [Log msg] \<Longrightarrow> emits (logE msg) Q"
  by (simp add: emits_def logE_def trace_emit)

lemma emits_sleepE: "Q (Inr ()) [Sleep secs] \<Longrightarrow> emits (sleepE b secs) Q"
  by (simp add: emits_def sleepE_def trace_sleep)

lemma emits_gateway: "(\<And>r. Q r [ev]) \<Longrightarrow> emits (gateway ev g) Q"
  by (simp add: emits_def gateway_def trace_emit split: prod.splits)

lemma emits_bindE:
  assumes "emits m (\<lambda>r evs1. case r of Inl e \<Rightarrow> Q (Inl e) evs1
                              | Inr a \<Rightarrow> emits (f a) (\<lambda>r2 evs2. Q r2 (evs1 @ evs2)))"
  shows "emits (bindE m f) Q"
proof (rule emitsI)
  fix s
  obtain r s1 where m: "m s = (r, s1)" by (cases "m s")
  obtain evs1 where t1: "trace s1 = trace s @ evs1"
    and q1: "case r of Inl e \<Rightarrow> Q (Inl e) evs1
                     | Inr a \<Rightarrow> emits (f a) (\<lambda>r2 evs2. Q r2 (evs1 @ evs2))"
    using emitsD [OF assms, of s] m by auto
  show "\<exists>evs. trace (snd (bindE m f s)) = trace s @ evs \<and> Q (fst (bindE m f s)) evs"
  proof (cases r)
    case (Inl e)
    then show ?thesis using m t1 q1 by (auto simp: bindE_def)
  next
    case (Inr a)
    then have "emits (f a) (\<lambda>r2 evs2. Q r2 (evs1 @ evs2))" using q1 by simp
    from emitsD [OF this, of s1]
    obtain evs2 where "trace (snd (f a s1)) = trace s1 @ evs2" and "Q (fst (f a s1)) (evs1 @ evs2)"
      by blast
    then show ?thesis using m t1 Inr by (auto simp: bindE_def)
  qed
qed

lemma attempt_run_no_fetch: "attempt_run b act sl p evs \<Longrightarrow> Fetch_balance \<notin> set evs"
  by (auto simp: attempt_run_def)

lemma emits_retry_wrapper:
  assumes nt: "''timestamp'' \<notin> fst ` set p"
  shows "emits (retry_wrapper b func p act sl True) (retry_spec act p)"
proof (rule emitsI)
  fix s
  let ?R = "retry_wrapper_dict b func p act sl True s"
  from retry_wrapper_dict_shape [of b act sl p func True s]
  obtain evs where b: "attempt_run b act sl p evs"
    and c: "(trace (snd ?R) = trace s @ evs @
              [Log (act @ '' FAIL too many times... Arbitrage STOPs!''), Alert act (snd (fst ?R))]
              \<and> fst (fst ?R) = Inl SystemExit)
         \<or> (1 \<le> length (attempts evs) \<and> trace (snd ?R) = trace s @ evs
              \<and> (fst (fst ?R) = Inl SystemExit \<or> (\<exists>v. fst (fst ?R) = Inr (Some v))))"
    by auto
  note a = attempt_run_no_timestamp [OF b nt] attempt_run_alerts [OF b] attempt_run_no_fetch [OF b]
  from c show "\<exists>evs. trace (snd (retry_wrapper b func p act sl True s)) = trace s @ evs
      \<and> retry_spec act p (fst (retry_wrapper b func p act sl True s)) evs"
  proof
    assume "trace (snd ?R) = trace s @ evs @
              [Log (act @ '' FAIL too many times... Arbitrage STOPs!''), Alert act (snd (fst ?R))]
              \<and> fst (fst ?R) = Inl SystemExit"
    then show ?thesis using a
      by (intro exI [of _ "evs @ [Log (act @ '' FAIL too many times... Arbitrage STOPs!''), Alert act (snd (fst ?R))]"])
         (auto simp: retry_wrapper_proj retry_spec_def attempts_append)
  next
    assume "1 \<le> length (attempts evs) \<and> trace (snd ?R) = trace s @ evs
              \<and> (fst (fst ?R) = Inl SystemExit \<or> (\<exists>v. fst (fst ?R) = Inr (Some v)))"
    then show ?thesis using a
      by (intro exI [of _ evs]) (auto simp: retry_wrapper_proj retry_spec_def)
  qed
qed

lemma first_then_replicate:
  assumes "0 < j \<longrightarrow> 0 < i \<and> a \<noteq> b"
  shows "first_then a b (replicate i a @ replicate j b)"
proof -
  have base: "dropWhile (\<lambda>x. x = a) (replicate j b) = replicate j b"
    using assms by (cases j) auto
  have "dropWhile (\<lambda>x. x = a) (replicate i a @ replicate j b) = replicate j b"
    using base by (induction i) simp_all
  moreover have "replicate i a @ replicate j b = [] \<or> hd (replicate i a @ replicate j b) = a"
    using assms by (cases i) auto
  ultimately show ?thesis
    by (simp add: first_then_def list_all_iff)
qed

lemma first_then_shapes:
  "first_then a b []"
  "first_then a b (replicate k a)"
  "a \<noteq> b \<Longrightarrow> first_then a b (a # replicate k a @ replicate j b)"
  "a \<noteq> b \<Longrightarrow> first_then a b (a # replicate k a @ b # replicate j b)"
  "first_then a b (a # replicate k a)"
  using first_then_replicate [of 0 0 a b] first_then_replicate [of 0 k a b]
    first_then_replicate [of j "Suc k" a b] first_then_replicate [of "Suc j" "Suc k" a b]
    first_then_replicate [of 0 "Suc k" a b]
  by simp_all

lemma bindE_assoc: "bindE (bindE m g) f = bindE m (\<lambda>x. bindE (g x) f)"
  by (auto simp: bindE_def fun_eq_iff split: prod.splits sum.splits)

lemma bindE_returnE: "bindE (returnE a) f = f a"
  by (simp add: bindE_def returnE_def)

lemma bindE_if: "bindE (if c then m1 else m2) f = (if c then bindE m1 f else bindE m2 f)"
  by simp

lemma emits_if: "(c \<Longrightarrow> emits m1 Q) \<Longrightarrow> (\<not> c \<Longrightarrow> emits m2 Q) \<Longrightarrow> emits (if c then m1 else m2) Q"
  by simp

lemma emits_bind_liftE:
  assumes "\<And>e. r = Inl e \<Longrightarrow> Q (Inl e) []" and "\<And>a. r = Inr a \<Longrightarrow> emits (f a) Q"
  shows "emits (bindE (liftE r) f) Q"
  by (rule emits_bindE, rule emits_liftE) (use assms in \<open>auto split: sum.splits\<close>)

lemma emits_bind_sleepE:
  assumes "emits (f ()) (\<lambda>r evs. Q r (Sleep secs # evs))"
  shows "emits (bindE (sleepE b secs) f) Q"
  by (rule emits_bindE, rule emits_sleepE) (use assms in simp)

lemma emits_bind_logE:
  assumes "emits (f ()) (\<lambda>r evs. Q r (Log msg # evs))"
  shows "emits (bindE (logE msg) f) Q"
  by (rule emits_bindE, rule emits_logE) (use assms in simp)

lemma emits_bind_gateway:
  assumes "\<And>e. Q (Inl e) [ev]" and "\<And>a. emits (f a) (\<lambda>r evs. Q r (ev # evs))"
  shows "emits (bindE (gateway ev g) f) Q"
  by (rule emits_bindE, rule emits_gateway) (use assms in \<open>auto split: sum.splits\<close>)

lemma emits_bind_retry:
  assumes "''timestamp'' \<notin> fst ` set p"
    and "\<And>k evs. attempts evs = replicate k (act, p) \<Longrightarrow> Fetch_balance \<notin> set evs \<Longrightarrow>
           Q (Inl SystemExit) evs"
    and "\<And>v k evs. attempts evs = replicate (Suc k) (act, p) \<Longrightarrow> alerts evs = [] \<Longrightarrow>
           Fetch_balance \<notin> set evs \<Longrightarrow> emits (f (Some v)) (\<lambda>r evs2. Q r (evs @ evs2))"
  shows "emits (bindE (retry_wrapper b (func :: pydict \<Rightarrow> 'w \<Rightarrow> (error + 'r) \<times> 'w) p act sl True) f) Q"
proof (rule emits_bindE, rule emits_weaken [OF emits_retry_wrapper [OF assms(1)]])
  fix r :: "error + 'r option" and evs
  assume s: "retry_spec act p r evs"
  then obtain k where k: "attempts evs = replicate k (act, p)" and nf: "Fetch_balance \<notin> set evs"
    by (auto simp: retry_spec_def)
  from s consider "r = Inl SystemExit" | v where "r = Inr (Some v)" "attempts evs \<noteq> []" "alerts evs = []"
    by (auto simp: retry_spec_def)
  then show "case r of Inl e \<Rightarrow> Q (Inl e) evs
             | Inr a \<Rightarrow> emits (f a) (\<lambda>r2 evs2. Q r2 (evs @ evs2))"
  proof cases
    case 1
    then show ?thesis using assms(2) [OF k nf] by simp
  next
    case 2
    then obtain k' where "k = Suc k'" using k by (cases k) auto
    then show ?thesis using assms(3) [of evs k' v] k nf 2 by simp
  qed
qed

lemmas emits_steps = emits_bind_liftE emits_bind_sleepE emits_bind_logE emits_bind_gateway
  emits_bind_retry emits_returnE emits_if

lemmas monad_laws = bindE_assoc bindE_returnE bindE_if


lemma filter_replicate_if: "filter P (replicate k x) = (if P x then replicate k x else [])"
  by (induction k) simp_all

lemmas leaf_simps = order_directions_def List.map_filter_def attempts_append alerts_append
  filter_replicate_if first_then_shapes



lemma close_iteration_alerts:
  "emits (close_iteration b num n) (\<lambda>r evs. alerts evs \<noteq> [] \<longrightarrow> r = Inl SystemExit)"
  unfolding close_iteration_def close_cycle_def
  apply (simp only: monad_laws)
  apply (intro emits_steps)
  apply (simp_all add: leaf_simps)
  done

subsection \<open>Running the simulated exchange\<close>

lemma sim_exchange_fields:
  "create_limit_buy_order (sim_exchange spot fut bad) = (\<lambda>symbol amt price w.
        (Inr [(''average'', price)],
         w\<lparr>sim_free := sim_free w + quantity_of amt,
           sim_calls := sim_calls w @ [Buy symbol amt price]\<rparr>))"
  "create_limit_sell_order (sim_exchange spot fut bad) = (\<lambda>symbol amt price w.
        (Inr [(''average'', price)],
         w\<lparr>sim_free := sim_free w - quantity_of amt,
           sim_calls := sim_calls w @ [Sell symbol amt price]\<rparr>))"
  "dapiPrivatePostOrder (sim_exchange spot fut bad) = (\<lambda>params w.
        (Inr [(''status'', PyStr ''NEW'')], w\<lparr>sim_calls := sim_calls w @ [PostOrder params]\<rparr>))"
  "sapiPostAssetTransfer (sim_exchange spot fut bad) = (\<lambda>params w.
        (Inr [(''tranId'', PyInt 1)], w\<lparr>sim_calls := sim_calls w @ [AssetTransfer params]\<rparr>))"
  "fetch_balance (sim_exchange spot fut bad) = (\<lambda>w. (Inr [(''USDT'', 1000), (''BTC'', sim_free w)], w))"
  "publicGetTickerBookTicker (sim_exchange spot fut bad) = (\<lambda>symbol w.
        (if sim_polls w \<in> set bad then Inl (Exception GatewayError) else Inr spot,
         w\<lparr>sim_polls := Suc (sim_polls w)\<rparr>))"
  "dapiPublicGetTickerBookTicker (sim_exchange spot fut bad) = (\<lambda>symbol w. (Inr [fut], w))"
  by (simp_all add: sim_exchange_def)

lemma sim_clock_fields:
  "time_time sim_clock = sim_time"
  "time_sleep sim_clock = (\<lambda>secs w. w\<lparr>sim_time := sim_time w + secs\<rparr>)"
  by (simp_all add: sim_clock_def)

lemma sim_bot_fields:
  "exchange (sim_bot spot fut bad) = sim_exchange spot fut bad"
  "clock (sim_bot spot fut bad) = sim_clock"
  "coin (sim_bot spot fut bad) = ''BTC''"
  "future_date (sim_bot spot fut bad) = ''210625''"
  "coin_precision (sim_bot spot fut bad) = 1"
  "slippage (sim_bot spot fut bad) = 0"
  "spot_fee_rate (sim_bot spot fut bad) = 0"
  "contract_fee_rate (sim_bot spot fut bad) = 0"
  "multipler (sim_bot spot fut bad) = [(''BTC'', 100), (''ETH'', 10)]"
  "amount (sim_bot spot fut bad) = 1000"
  "num_maximum (sim_bot spot fut bad) = 1"
  "threshold (sim_bot spot fut bad) = 1 / 200"
  "max_trial (sim_bot spot fut bad) = 3"
  by (simp_all add: sim_bot_def)

lemma open_bot_fields:
  "exchange open_bot = sim_exchange \<lparr>askPrice = 100, bidPrice = 99\<rparr> \<lparr>askPrice = 126, bidPrice = 125\<rparr> []"
  "clock open_bot = sim_clock"
  "coin open_bot = ''BTC''"
  "future_date open_bot = ''210625''"
  "coin_precision open_bot = 1"
  "slippage open_bot = 0"
  "spot_fee_rate open_bot = 0"
  "contract_fee_rate open_bot = 0"
  "multipler open_bot = [(''BTC'', 100), (''ETH'', 10)]"
  "amount open_bot = 1000"
  "num_maximum open_bot = 1"
  "threshold open_bot = 1 / 200"
  "max_trial open_bot = 3"
  by (simp_all add: open_bot_def sim_bot_def)

lemma close_bot_fields:
  "exchange (close_bot bad) = sim_exchange \<lparr>askPrice = 101, bidPrice = 100\<rparr> \<lparr>askPrice = 100, bidPrice = 99\<rparr> bad"
  "clock (close_bot bad) = sim_clock"
  "coin (close_bot bad) = ''BTC''"
  "future_date (close_bot bad) = ''210625''"
  "coin_precision (close_bot bad) = 1"
  "slippage (close_bot bad) = 0"
  "spot_fee_rate (close_bot bad) = 0"
  "contract_fee_rate (close_bot bad) = 0"
  "multipler (close_bot bad) = [(''BTC'', 100), (''ETH'', 10)]"
  "amount (close_bot bad) = 5"
  "num_maximum (close_bot bad) = 1"
  "threshold (close_bot bad) = 1 / 200"
  "max_trial (close_bot bad) = 3"
  by (simp_all add: close_bot_def sim_bot_def)

lemmas sim_fields = sim_exchange_fields sim_clock_fields sim_bot_fields open_bot_fields close_bot_fields
  sim_start_def quantity_of_def always_rejects_def

lemmas loop_defs = open_cycle_def open_iteration_def close_cycle_def close_iteration_def
  close_prelude_def close_position_utils_def open_position_def order_directions_def List.map_filter_def

section \<open>Properties: order placement\<close>

lemma emitsE:
  assumes "emits m Q"
  obtains evs where "trace (snd (m s)) = trace s @ evs" and "Q (fst (m s)) evs"
  using emitsD [OF assms, of s] by blast




section \<open>Properties: process exit\<close>

text \<open>
  C10. \<open>exit()\<close> is not an ordinary exception, so the supervisor does not catch it. In a
  pass through the closing loop, an alert (sent only when \<open>retry_wrapper\<close> gives up) means
  that the pass ends with \<open>SystemExit\<close>; such a pass ends the loop with \<open>SystemExit\<close>, and
  so does a pass that brings the counter to \<open>num_maximum\<close>. Whenever
  \<open>close_position_utils\<close> ends with \<open>SystemExit\<close>, \<open>close_position\<close> ends with it too, in
  the same state: no restart, no further action.
\<close>

theorem exit_is_not_restarted:
  "(alerts (new_events s (snd (close_iteration b num n s))) \<noteq> [] \<longrightarrow>
      fst (close_iteration b num n s) = Inl SystemExit)
   \<and> (fst (close_iteration b num n s) = Inl SystemExit \<longrightarrow>
      close_loop (Suc k) b num n s = Some (SystemExit, snd (close_iteration b num n s)))
   \<and> (\<forall>n'. fst (close_iteration b num n s) = Inr n' \<and> num_maximum b \<le> n' \<longrightarrow>
      close_loop (Suc k) b num n s =
        Some (SystemExit,
          emit (Log ''Maximum execution number reached >>> Position closing stops.'')
            (snd (close_iteration b num n s))))
   \<and> (\<forall>s'. close_position_utils fuel b s = Some (SystemExit, s') \<longrightarrow>
      close_position (Suc restarts) fuel b s = Some (SystemExit, s'))"
proof (intro conjI impI allI)
  obtain evs where t: "trace (snd (close_iteration b num n s)) = trace s @ evs"
    and a: "alerts evs \<noteq> [] \<longrightarrow> fst (close_iteration b num n s) = Inl SystemExit"
    using close_iteration_alerts [of b num n] by (rule emitsE)
  assume "alerts (new_events s (snd (close_iteration b num n s))) \<noteq> []"
  then show "fst (close_iteration b num n s) = Inl SystemExit"
    using t a by (simp add: new_events_def)
next
  assume "fst (close_iteration b num n s) = Inl SystemExit"
  then show "close_loop (Suc k) b num n s = Some (SystemExit, snd (close_iteration b num n s))"
    by (cases "close_iteration b num n s") simp
next
  fix n'
  assume "fst (close_iteration b num n s) = Inr n' \<and> num_maximum b \<le> n'"
  then show "close_loop (Suc k) b num n s =
        Some (SystemExit,
          emit (Log ''Maximum execution number reached >>> Position closing stops.'')
            (snd (close_iteration b num n s)))"
    by (cases "close_iteration b num n s") simp
next
  fix s'
  assume "close_position_utils fuel b s = Some (SystemExit, s')"
  then show "close_position (Suc restarts) fuel b s = Some (SystemExit, s')"
    by simp
qed

lemma rejecting_bot_fields:
  "create_limit_buy_order (exchange rejecting_bot) = create_limit_buy_order (exchange (close_bot []))"
  "create_limit_sell_order (exchange rejecting_bot) = create_limit_sell_order (exchange (close_bot []))"
  "dapiPrivatePostOrder (exchange rejecting_bot) = always_rejects"
  "sapiPostAssetTransfer (exchange rejecting_bot) = sapiPostAssetTransfer (exchange (close_bot []))"
  "fetch_balance (exchange rejecting_bot) = fetch_balance (exchange (close_bot []))"
  "publicGetTickerBookTicker (exchange rejecting_bot) = publicGetTickerBookTicker (exchange (close_bot []))"
  "dapiPublicGetTickerBookTicker (exchange rejecting_bot) = dapiPublicGetTickerBookTicker (exchange (close_bot []))"
  "clock rejecting_bot = sim_clock"
  "coin rejecting_bot = ''BTC''"
  "future_date rejecting_bot = ''210625''"
  "coin_precision rejecting_bot = 1"
  "slippage rejecting_bot = 0"
  "spot_fee_rate rejecting_bot = 0"
  "contract_fee_rate rejecting_bot = 0"
  "multipler rejecting_bot = [(''BTC'', 100), (''ETH'', 10)]"
  "amount rejecting_bot = 5"
  "num_maximum rejecting_bot = 1"
  "threshold rejecting_bot = 1 / 200"
  "max_trial rejecting_bot = 3"
  by (simp_all add: rejecting_bot_def close_bot_def sim_bot_def)

theorem exit_is_not_restarted_witness:
  "alerts (new_events (sim_start 8) (snd (close_iteration rejecting_bot 8 0 (sim_start 8)))) \<noteq> []
   \<and> fst (close_iteration rejecting_bot 8 0 (sim_start 8)) = Inl SystemExit
   \<and> map_option fst (close_loop (Suc 0) rejecting_bot 8 0 (sim_start 8)) = Some SystemExit
   \<and> map_option fst (close_position_utils (Suc 0) rejecting_bot (sim_start 8)) = Some SystemExit
   \<and> map_option fst (close_position (Suc 0) (Suc 0) rejecting_bot (sim_start 8)) = Some SystemExit
   \<and> fst (close_iteration (close_bot []) 8 0 (sim_start 8)) = Inr 1
   \<and> num_maximum (close_bot []) \<le> 1
   \<and> map_option fst (close_loop (Suc 0) (close_bot []) 8 0 (sim_start 8)) = Some SystemExit"
proof -
  have a: "alerts (new_events (sim_start 8) (snd (close_iteration rejecting_bot 8 0 (sim_start 8)))) \<noteq> []"
    by (simp add: run_defs sim_fields rejecting_bot_fields loop_defs Let_def eval_nat_numeral)
  note t1 = exit_is_not_restarted [where b = rejecting_bot and s = "sim_start 8" and num = 8 and n = 0
              and k = 0 and fuel = "Suc 0" and restarts = 0]
  have x: "fst (close_iteration rejecting_bot 8 0 (sim_start 8)) = Inl SystemExit"
    using t1 [THEN conjunct1] a by blast
  have l: "map_option fst (close_loop (Suc 0) rejecting_bot 8 0 (sim_start 8)) = Some SystemExit"
    using t1 [THEN conjunct2, THEN conjunct1] x by simp
  have "\<exists>s'. close_position_utils (Suc 0) rejecting_bot (sim_start 8) = Some (SystemExit, s')"
    by (simp add: run_defs sim_fields rejecting_bot_fields loop_defs Let_def eval_nat_numeral)
  then obtain s' where u: "close_position_utils (Suc 0) rejecting_bot (sim_start 8) = Some (SystemExit, s')" ..
  have c: "map_option fst (close_position (Suc 0) (Suc 0) rejecting_bot (sim_start 8)) = Some SystemExit"
    using t1 [THEN conjunct2, THEN conjunct2, THEN conjunct2] u by simp
  have i: "fst (close_iteration (close_bot []) 8 0 (sim_start 8)) = Inr 1"
    by (simp add: run_defs sim_fields loop_defs Let_def eval_nat_numeral)
  have m: "num_maximum (close_bot []) \<le> 1" by (simp add: sim_fields)
  have "map_option fst (close_loop (Suc 0) (close_bot []) 8 0 (sim_start 8)) = Some SystemExit"
    using exit_is_not_restarted [where b = "close_bot []" and s = "sim_start 8" and num = 8 and n = 0
              and k = 0, THEN conjunct2, THEN conjunct2, THEN conjunct1] i m by simp
  then show ?thesis using a x l u c i m by simp
qed

section \<open>Properties: the transferred amount\<close>

text \<open>
  C3 fails in the closing phase. \<open>close_position_utils\<close> reads the balance twice before
  its loop and never again: with a free balance of 8 at entry and a spot sale of 5, the
  balance after the orders is 3, and the transfer submitted is of 8.
\<close>

theorem closing_transfer_is_stale:
  "map_option fst (close_position_utils (Suc 0) (close_bot []) (sim_start 8)) = Some SystemExit
   \<and> map_option (attempts \<circ> trace \<circ> snd) (close_position_utils (Suc 0) (close_bot []) (sim_start 8))
     = Some [(''Close short coin-margin orders'',
               [(''symbol'', PyStr ''BTCUSD_210625''), (''direction'', PyStr ''close_short''),
                (''price'', PyFloat 100), (''amount'', PyInt 5)]),
             (''Long spot orders'',
               [(''symbol'', PyStr ''BTC/USDT''), (''direction'', PyStr ''short''),
                (''price'', PyFloat 100), (''amount'', PyFloat 5)]),
             (''Transfer (COIN-M --> SPOT)'',
               [(''currency'', PyStr ''BTC''), (''amount'', PyFloat 8),
                (''from_account'', PyStr ''coin-margin''), (''to_account'', PyStr ''spot'')])]
   \<and> map_option (fst \<circ> fetch_balance (exchange (close_bot [])) \<circ> world \<circ> snd)
        (close_position_utils (Suc 0) (close_bot []) (sim_start 8))
     = Some (Inr [(''USDT'', 1000), (''BTC'', 3)])
   \<and> map_option (filter (\<lambda>ev. ev = Fetch_balance) \<circ> trace \<circ> snd)
        (close_position_utils (Suc 0) (close_bot []) (sim_start 8))
     = Some [Fetch_balance, Fetch_balance]
   \<and> map_option (take 2 \<circ> trace \<circ> snd) (close_position_utils (Suc 0) (close_bot []) (sim_start 8))
     = Some [Fetch_balance, Fetch_balance]"
  by (simp add: run_defs sim_fields loop_defs Let_def eval_nat_numeral)

text \<open>
  On any exchange, a pass through the closing loop reads no balance, and every transfer
  it attempts is of \<open>num\<close>, the balance read before the loop.
\<close>

lemma close_iteration_transfer:
  "emits (close_iteration b num n)
     (\<lambda>r evs. Fetch_balance \<notin> set evs
        \<and> (\<forall>(a, p) \<in> set (attempts evs). a = ''Transfer (COIN-M --> SPOT)'' \<longrightarrow>
              map_of p ''amount'' = Some (PyFloat num)))"
  unfolding close_iteration_def close_cycle_def
  apply (simp only: monad_laws)
  apply (intro emits_steps)
  apply (auto simp: leaf_simps)
  done

section \<open>Properties: the closing supervisor\<close>

lemma restart_bot_fields:
  "exchange restart_bot = exchange (close_bot [1])"
  "clock restart_bot = sim_clock"
  "coin restart_bot = ''BTC''"
  "future_date restart_bot = ''210625''"
  "coin_precision restart_bot = 1"
  "slippage restart_bot = 0"
  "spot_fee_rate restart_bot = 0"
  "contract_fee_rate restart_bot = 0"
  "multipler restart_bot = [(''BTC'', 100), (''ETH'', 10)]"
  "amount restart_bot = 5"
  "num_maximum restart_bot = 2"
  "threshold restart_bot = 1 / 200"
  "max_trial restart_bot = 3"
  by (simp_all add: restart_bot_def close_bot_def sim_bot_def)

text \<open>
  C8, as stated, fails: an ordinary exception raised inside a closing cycle by a wrapped
  operation never reaches the supervisor. Here the exchange rejects the futures order on
  every attempt; \<open>retry_wrapper\<close> catches the three exceptions, alerts and exits, and
  \<open>close_position\<close> ends with \<open>SystemExit\<close> without a restart.
\<close>

theorem closing_cycle_exception_counterexample:
  "dapiPrivatePostOrder (exchange rejecting_bot) [] (world (sim_start 8))
     = (Inl (Exception GatewayError), world (sim_start 8))
   \<and> map_option fst (close_position (Suc (Suc 0)) (Suc (Suc 0)) rejecting_bot (sim_start 8))
     = Some SystemExit
   \<and> map_option (trace \<circ> snd) (close_position (Suc (Suc 0)) (Suc (Suc 0)) rejecting_bot (sim_start 8))
     = Some [Fetch_balance, Fetch_balance, Ticker_spot ''BTCUSDT'', Ticker_future ''BTCUSD_210625'',
         Log ''Price difference SMALLER than threshold >>> Stopping arbitrage...'',
         Attempt ''Close short coin-margin orders''
          [(''symbol'', PyStr ''BTCUSD_210625''), (''direction'', PyStr ''close_short''),
           (''price'', PyFloat 100), (''amount'', PyInt 5)],
         Sleep 1,
         Attempt ''Close short coin-margin orders''
          [(''symbol'', PyStr ''BTCUSD_210625''), (''direction'', PyStr ''close_short''),
           (''price'', PyFloat 100), (''amount'', PyInt 5)],
         Sleep 1,
         Attempt ''Close short coin-margin orders''
          [(''symbol'', PyStr ''BTCUSD_210625''), (''direction'', PyStr ''close_short''),
           (''price'', PyFloat 100), (''amount'', PyInt 5)],
         Sleep 1,
         Log ''Close short coin-margin orders FAIL too many times... Arbitrage STOPs!'',
         Alert ''Close short coin-margin orders''
          [(''symbol'', PyStr ''BTCUSD_210625''), (''direction'', PyStr ''close_short''),
           (''price'', PyFloat 100), (''amount'', PyInt 5)]]"
  by (simp add: run_defs sim_fields rejecting_bot_fields loop_defs Let_def eval_nat_numeral)

text \<open>
  C8, amended. If an ordinary exception leaves \<open>close_position_utils\<close> (one raised outside
  the wrapped operations: by a balance or ticker read, the sizing arithmetic, or the
  reading of the order result), the supervisor catches it, logs, sleeps 2 seconds, sends
  no alert, and runs \<open>close_position_utils\<close> again, once for that failure; the new run
  reads the balances again and starts its loop with the execution counter at zero.
\<close>

theorem supervisor_restart:
  assumes "close_position_utils fuel b s = Some (Exception e, s')"
  shows "close_position (Suc restarts) fuel b s =
           close_position restarts fuel b
             (sleep b 2 (emit (Log ''Closing positions FAILED >>> Retrying...'') s'))
       \<and> new_events s' (sleep b 2 (emit (Log ''Closing positions FAILED >>> Retrying...'') s'))
           = [Log ''Closing positions FAILED >>> Retrying...'', Sleep 2]
       \<and> close_position_utils fuel b s'' =
           (case close_prelude b s'' of
              (Inl e', t) \<Rightarrow> Some (e', t)
            | (Inr num', t) \<Rightarrow> close_loop fuel b num' 0 t)"
  using assms
  by (simp add: new_events_def trace_sleep trace_emit close_position_utils_def split: prod.splits sum.splits)

theorem supervisor_restart_witness:
  "(\<exists>s'. close_position_utils (Suc (Suc 0)) restart_bot (sim_start 20) = Some (Exception GatewayError, s')
        \<and> close_position (Suc (Suc 0)) (Suc (Suc 0)) restart_bot (sim_start 20) =
            close_position (Suc 0) (Suc (Suc 0)) restart_bot
              (sleep restart_bot 2 (emit (Log ''Closing positions FAILED >>> Retrying...'') s')))
   \<and> (\<exists>s'. close_position (Suc (Suc 0)) (Suc (Suc 0)) restart_bot (sim_start 20) = Some (SystemExit, s')
        \<and> map fst (attempts (trace s')) =
             [''Close short coin-margin orders'', ''Long spot orders'', ''Transfer (COIN-M --> SPOT)'',
              ''Close short coin-margin orders'', ''Long spot orders'', ''Transfer (COIN-M --> SPOT)'',
              ''Close short coin-margin orders'', ''Long spot orders'', ''Transfer (COIN-M --> SPOT)''])"
proof -
  have "\<exists>s'. close_position_utils (Suc (Suc 0)) restart_bot (sim_start 20) = Some (Exception GatewayError, s')"
    by (simp add: run_defs sim_fields restart_bot_fields loop_defs Let_def eval_nat_numeral)
  then obtain s' where u: "close_position_utils (Suc (Suc 0)) restart_bot (sim_start 20)
      = Some (Exception GatewayError, s')" ..
  note t = supervisor_restart [OF u, of "Suc 0", THEN conjunct1]
  have e: "\<exists>s'. close_position (Suc (Suc 0)) (Suc (Suc 0)) restart_bot (sim_start 20) = Some (SystemExit, s')
        \<and> map fst (attempts (trace s')) =
             [''Close short coin-margin orders'', ''Long spot orders'', ''Transfer (COIN-M --> SPOT)'',
              ''Close short coin-margin orders'', ''Long spot orders'', ''Transfer (COIN-M --> SPOT)'',
              ''Close short coin-margin orders'', ''Long spot orders'', ''Transfer (COIN-M --> SPOT)'']"
    by (simp add: run_defs sim_fields restart_bot_fields loop_defs Let_def eval_nat_numeral)
  show ?thesis using u t e by blast
qed

section \<open>Properties: the threshold decision\<close>






end
